theory Spec2Isabelle
  imports Main "HOL-Library.Sublist"
begin

section \<open>Python values, identities and the object store\<close>

text \<open>
  The renderer walks a graph of Python objects.  Containers (dicts, lists, tuples) have an
  identity (\<^verbatim>\<open>id(obj)\<close>) and may be shared or cyclic, so they live in a store indexed
  by their identity; every other value is a scalar.  A string is a list of characters,
  one \<^typ>\<open>char\<close> per Python character.
\<close>

type_synonym addr = nat

text \<open>
  The text a float is formatted to (by \<^verbatim>\<open>f"{v}"\<close>) is carried with the value: Python
  writes a float with digits, a point, a sign, an exponent, or as inf/nan, and with no
  other character.
\<close>

definition float_chars :: "char set" where
  "float_chars = set ''0123456789.e+-infa''"

typedef float_text = "{t :: string. set t \<subseteq> float_chars}"
  by (rule exI [of _ "[]"]) simp

setup_lifting type_definition_float_text

text \<open>
  A dict key, or the key handed to \<^verbatim>\<open>_to_html\<close>: None, a string, an integer (also a list
  index), or any other hashable, carried as the text its \<^verbatim>\<open>str()\<close> returns.
\<close>

datatype pykey = KNone | KStr string | KInt int | KOther string

text \<open>
  \<open>VOpaque\<close> is any value of another type (bytes, a set, an object), carried as the text
  its \<^verbatim>\<open>repr()\<close> returns; \<open>VRef\<close> is a reference to a container of the store.
\<close>

datatype pyval =
    VStr string
  | VNone
  | VBool bool
  | VInt int
  | VFloat float_text
  | VOpaque string
  | VRef addr

datatype container = CMap "(pykey \<times> pyval) list" | CSeq "pyval list"

type_synonym heap = "addr \<Rightarrow> container"

section \<open>Text helpers of the Python runtime\<close>

definition digit_char :: "nat \<Rightarrow> char" where
  "digit_char d = ''0123456789'' ! (d mod 10)"

function show_nat :: "nat \<Rightarrow> string" where
  "show_nat n = (if n < 10 then [digit_char n] else show_nat (n div 10) @ [digit_char (n mod 10)])"
  by pat_completeness auto
termination
  by (relation "measure (\<lambda>n. n)") auto

declare show_nat.simps [simp del]

text \<open>The decimal text of an integer.\<close>

definition show_int :: "int \<Rightarrow> string" where
  "show_int i = (if i < 0 then ''-'' @ show_nat (nat (- i)) else show_nat (nat i))"

text \<open>
  \<^verbatim>\<open>str(i)\<close> and \<^verbatim>\<open>f"{i}"\<close> of an int the caller supplies (a value or a key).  CPython
  refuses to convert an int of more than \<^verbatim>\<open>sys.int_max_str_digits\<close> decimal digits (4300
  unless reconfigured) and raises ValueError; \<open>None\<close> stands for the exception.
\<close>

definition int_max_str_digits :: nat where
  "int_max_str_digits = 4300"

definition py_str_int :: "int \<Rightarrow> string option" where
  "py_str_int i =
     (if length (show_nat (nat \<bar>i\<bar>)) > int_max_str_digits then None else Some (show_int i))"

text \<open>
  \<^verbatim>\<open>level * _INDENT_REM\<close> with \<^verbatim>\<open>_INDENT_REM = 0.5\<close>, formatted by the f-string: the
  float \<open>level / 2\<close>, which Python writes with one decimal digit (\<^verbatim>\<open>0.0\<close>, \<^verbatim>\<open>0.5\<close>,
  \<^verbatim>\<open>1.0\<close>, ...) for every level below \<open>2 * 10^16\<close>; the level is the nesting depth, which
  the interpreter's recursion limit keeps far below that.
\<close>

definition indent_rem :: "nat \<Rightarrow> string" where
  "indent_rem level = show_nat (level div 2) @ ''.'' @ (if even level then ''0'' else ''5'')"

text \<open>\<^verbatim>\<open>s.replace(c, r)\<close> for a single character \<open>c\<close>.\<close>

definition replace_char :: "char \<Rightarrow> string \<Rightarrow> string \<Rightarrow> string" where
  "replace_char c r s = concat (map (\<lambda>x. if x = c then r else [x]) s)"

text \<open>\<^verbatim>\<open>html.escape(s, quote=False)\<close>: the ampersand first, then the angle brackets.\<close>

definition html_escape :: "string \<Rightarrow> string" where
  "html_escape s =
     replace_char CHR ''>'' ''&gt;''
       (replace_char CHR ''<'' ''&lt;''
         (replace_char CHR ''&'' ''&amp;'' s))"

text \<open>\<^verbatim>\<open>str(k)\<close> of a key; of an int key it can raise.\<close>

fun str_of_key :: "pykey \<Rightarrow> string option" where
  "str_of_key KNone = Some ''None''"
| "str_of_key (KStr s) = Some s"
| "str_of_key (KInt i) = py_str_int i"
| "str_of_key (KOther t) = Some t"

section \<open>Classification of values\<close>

text \<open>
  \<^verbatim>\<open>isinstance(obj, Mapping)\<close>, and
  \<^verbatim>\<open>isinstance(obj, Sequence) and not isinstance(obj, (str, bytes, bytearray))\<close>.
\<close>

fun is_mapping :: "heap \<Rightarrow> pyval \<Rightarrow> bool" where
  "is_mapping h (VRef a) = (case h a of CMap _ \<Rightarrow> True | CSeq _ \<Rightarrow> False)"
| "is_mapping h _ = False"

fun is_sequence :: "heap \<Rightarrow> pyval \<Rightarrow> bool" where
  "is_sequence h (VRef a) = (case h a of CSeq _ \<Rightarrow> True | CMap _ \<Rightarrow> False)"
| "is_sequence h _ = False"

text \<open>\<^verbatim>\<open>id(obj)\<close> of a container.\<close>

fun id_of :: "pyval \<Rightarrow> addr" where
  "id_of (VRef a) = a"
| "id_of _ = 0"

text \<open>\<^verbatim>\<open>obj.items()\<close> of a mapping and \<^verbatim>\<open>enumerate(obj)\<close> of a sequence.\<close>

fun items_of :: "heap \<Rightarrow> pyval \<Rightarrow> (pykey \<times> pyval) list" where
  "items_of h (VRef a) = (case h a of CMap kvs \<Rightarrow> kvs | CSeq _ \<Rightarrow> [])"
| "items_of h _ = []"

fun enumerate_of :: "heap \<Rightarrow> pyval \<Rightarrow> (nat \<times> pyval) list" where
  "enumerate_of h (VRef a) = (case h a of CSeq vs \<Rightarrow> enumerate 0 vs | CMap _ \<Rightarrow> [])"
| "enumerate_of h _ = []"

text \<open>The \<^verbatim>\<open>isinstance\<close> tests of \<^verbatim>\<open>fmt_primitive\<close>; a bool is an int in Python.\<close>

fun isinstance_str :: "pyval \<Rightarrow> bool" where
  "isinstance_str (VStr _) = True"
| "isinstance_str _ = False"

text \<open>\<^verbatim>\<open>v is None\<close>.\<close>

fun is_none :: "pyval \<Rightarrow> bool" where
  "is_none VNone = True"
| "is_none _ = False"

fun isinstance_bool :: "pyval \<Rightarrow> bool" where
  "isinstance_bool (VBool _) = True"
| "isinstance_bool _ = False"

fun isinstance_int_float :: "pyval \<Rightarrow> bool" where
  "isinstance_int_float (VBool _) = True"
| "isinstance_int_float (VInt _) = True"
| "isinstance_int_float (VFloat _) = True"
| "isinstance_int_float _ = False"

fun str_value :: "pyval \<Rightarrow> string" where
  "str_value (VStr s) = s"
| "str_value _ = []"

fun bool_value :: "pyval \<Rightarrow> bool" where
  "bool_value (VBool b) = b"
| "bool_value _ = False"

text \<open>
  \<^verbatim>\<open>f"{v}"\<close> of a number (of a bool it would be \<^verbatim>\<open>True\<close> or \<^verbatim>\<open>False\<close>); of an int it
  can raise.
\<close>

fun py_format :: "pyval \<Rightarrow> string option" where
  "py_format (VInt i) = py_str_int i"
| "py_format (VFloat t) = Some (Rep_float_text t)"
| "py_format (VBool b) = Some (if b then ''True'' else ''False'')"
| "py_format _ = Some []"

text \<open>\<^verbatim>\<open>repr(v)\<close> of a value of any other type.\<close>

fun py_repr :: "pyval \<Rightarrow> string" where
  "py_repr (VOpaque r) = r"
| "py_repr _ = []"

section \<open>The extended renderer (interactive\_json\_tree)\<close>

text \<open>
  A limit (\<^verbatim>\<open>max_children\<close>, \<^verbatim>\<open>max_string_length\<close>) is an integer or None; it applies
  when \<^verbatim>\<open>limit is not None and limit >= 0\<close>.
\<close>

definition bounded :: "int option \<Rightarrow> bool" where
  "bounded lim = (lim \<noteq> None \<and> the lim \<ge> 0)"

definition esc :: "string \<Rightarrow> string" where
  "esc x = html_escape x"

text \<open>
  In the functions below \<open>None\<close> is a call that raises: ValueError from the conversion of
  an oversized int, or RecursionError in \<^verbatim>\<open>_to_html\<close>.
\<close>

definition key_prefix_html :: "pykey \<Rightarrow> bool \<Rightarrow> string option" where
  \<open>key_prefix_html k is_index =
     (if k = KNone then Some ''''
      else if is_index then
        (case str_of_key k of
           None \<Rightarrow> None
         | Some t \<Rightarrow>
             Some (''<span class="jt-key">['' @ t @ '']</span><span class="jt-punct">: </span>''))
      else
        (case str_of_key k of
           None \<Rightarrow> None
         | Some t \<Rightarrow>
             Some (''<span class="jt-key">"'' @ esc t
                   @ ''"</span><span class="jt-punct">: </span>'')))\<close>

definition fmt_primitive :: "int option \<Rightarrow> pyval \<Rightarrow> string option" where
  \<open>fmt_primitive max_string_length v =
     (if isinstance_str v then
        (if bounded max_string_length \<and> int (length (str_value v)) > the max_string_length then
           (let truncated = take (nat (the max_string_length)) (str_value v)
            in Some (''<span class="jt-str jt-str-trunc">"'' @ esc truncated @ ''..."</span>''))
         else Some (''<span class="jt-str">"'' @ esc (str_value v) @ ''"</span>''))
      else if is_none v then Some ''<span class="jt-null">null</span>''
      else if isinstance_bool v then
        Some (''<span class="jt-bool">'' @ (if bool_value v then ''true'' else ''false'')
              @ ''</span>'')
      else if isinstance_int_float v then
        (case py_format v of
           None \<Rightarrow> None
         | Some t \<Rightarrow> Some (''<span class="jt-num">'' @ t @ ''</span>''))
      else Some (''<span>'' @ esc (py_repr v) @ ''</span>''))\<close>

definition circular_leaf :: string where
  \<open>circular_leaf = ''<div class="jt-leaf"><em>[Circular]</em></div>''\<close>

definition leaf_row :: "nat \<Rightarrow> string \<Rightarrow> string" where
  \<open>leaf_row level body =
     ''<div class="jt-leaf" style="margin-left:'' @ indent_rem level @ ''rem">'' @ body @ ''</div>''\<close>

text \<open>
  The line of a primitive child,
  \<^verbatim>\<open><div class="jt-leaf" style="margin-left:{...}rem">{key_prefix_html(k, i)}{fmt_primitive(v)}</div>\<close>.
\<close>

definition primitive_row :: "int option \<Rightarrow> nat \<Rightarrow> pykey \<Rightarrow> bool \<Rightarrow> pyval \<Rightarrow> string option" where
  "primitive_row max_string_length level k is_index v =
     (case key_prefix_html k is_index of
        None \<Rightarrow> None
      | Some key_prefix \<Rightarrow>
          (case fmt_primitive max_string_length v of
             None \<Rightarrow> None
           | Some value \<Rightarrow> Some (leaf_row level (key_prefix @ value))))"

definition more_row :: "nat \<Rightarrow> int \<Rightarrow> string" where
  \<open>more_row level remaining =
     ''<div class="jt-more" style="margin-left:'' @ indent_rem level @ ''rem">''
     @ ''<em>... '' @ show_int remaining @ '' more item''
     @ (if remaining \<noteq> 1 then ''s'' else '''') @ ''</em></div>''\<close>

definition details_html :: "string \<Rightarrow> nat \<Rightarrow> string \<Rightarrow> string list \<Rightarrow> string" where
  \<open>details_html open_attr level summary_label rows =
     ''<details class="jt-details"'' @ open_attr @ '' style="margin-left:'' @ indent_rem level
     @ ''rem">'' @ ''<summary class="jt-summary">'' @ summary_label @ ''</summary>''
     @ concat rows @ ''</details>''\<close>

text \<open>
  \<^verbatim>\<open>_to_html\<close>.  The first argument bounds the depth of the recursion: Python raises
  RecursionError beyond its limit, and the model returns \<open>None\<close>.  The visited set
  \<^verbatim>\<open>seen\<close> is one mutable set shared by all calls, so it is passed in and returned.
  \<open>map_rows\<close> and \<open>seq_rows\<close> are the two \<^verbatim>\<open>for\<close> loops that build \<^verbatim>\<open>rows\<close>.  The
  length of a container and an index into it are bounded by the memory of the machine, far
  below the limit of the int conversion, so their text is \<open>show_int\<close>.
\<close>

function (sequential) to_html ::
    "nat \<Rightarrow> heap \<Rightarrow> int option \<Rightarrow> int option \<Rightarrow> int \<Rightarrow> nat \<Rightarrow> addr set \<Rightarrow> pykey \<Rightarrow> bool \<Rightarrow> pyval
      \<Rightarrow> (string \<times> addr set) option"
  and map_rows ::
    "nat \<Rightarrow> heap \<Rightarrow> int option \<Rightarrow> int option \<Rightarrow> int \<Rightarrow> nat \<Rightarrow> addr set \<Rightarrow> (pykey \<times> pyval) list
      \<Rightarrow> (string list \<times> addr set) option"
  and seq_rows ::
    "nat \<Rightarrow> heap \<Rightarrow> int option \<Rightarrow> int option \<Rightarrow> int \<Rightarrow> nat \<Rightarrow> addr set \<Rightarrow> (nat \<times> pyval) list
      \<Rightarrow> (string list \<times> addr set) option"
where
  \<open>to_html 0 h max_children max_string_length expand_depth level seen key key_is_index obj = None\<close>
| \<open>to_html (Suc n) h max_children max_string_length expand_depth level seen key key_is_index obj =
     (let is_map = is_mapping h obj; is_seq = is_sequence h obj in
      if (is_map \<or> is_seq) \<and> id_of obj \<in> seen then Some (circular_leaf, seen)
      else
        let seen = (if is_map \<or> is_seq then insert (id_of obj) seen else seen) in
        if is_map then
          (let size = int (length (items_of h obj));
               visible = (if bounded max_children then min size (the max_children) else size);
               open_attr = (if expand_depth > 0 then '' open'' else '''');
               count_display =
                 (if visible \<noteq> size then show_int visible @ ''/'' @ show_int size
                  else show_int size)
           in case key_prefix_html key key_is_index of
                None \<Rightarrow> None
              | Some key_prefix \<Rightarrow>
                  let summary_label =
                        key_prefix @ ''{} Object ''
                        @ ''<span class="jt-punct">('' @ count_display @ '')</span>'';
                      items_iter =
                        (if bounded max_children
                         then take (nat (the max_children)) (items_of h obj)
                         else items_of h obj)
                  in case map_rows n h max_children max_string_length expand_depth level seen
                            items_iter of
                       None \<Rightarrow> None
                     | Some (rows, seen) \<Rightarrow>
                         let rows =
                               (if size > visible
                                then rows @ [more_row (level + 1) (size - visible)]
                                else rows)
                         in Some (details_html open_attr level summary_label rows, seen))
        else if is_seq then
          (let size = int (length (enumerate_of h obj));
               visible = (if bounded max_children then min size (the max_children) else size);
               open_attr = (if expand_depth > 0 then '' open'' else '''');
               count_display =
                 (if visible \<noteq> size then show_int visible @ ''/'' @ show_int size
                  else show_int size)
           in case key_prefix_html key key_is_index of
                None \<Rightarrow> None
              | Some key_prefix \<Rightarrow>
                  let summary_label =
                        key_prefix @ ''[] Array ''
                        @ ''<span class="jt-punct">('' @ count_display @ '')</span>'';
                      iterable =
                        (if bounded max_children
                         then take (nat (the max_children)) (enumerate_of h obj)
                         else enumerate_of h obj)
                  in case seq_rows n h max_children max_string_length expand_depth level seen
                            iterable of
                       None \<Rightarrow> None
                     | Some (rows, seen) \<Rightarrow>
                         let rows =
                               (if size > visible
                                then rows @ [more_row (level + 1) (size - visible)]
                                else rows)
                         in Some (details_html open_attr level summary_label rows, seen))
        else if key \<noteq> KNone then
          (case primitive_row max_string_length level key key_is_index obj of
             None \<Rightarrow> None
           | Some row \<Rightarrow> Some (row, seen))
        else
          (case fmt_primitive max_string_length obj of
             None \<Rightarrow> None
           | Some value \<Rightarrow> Some (leaf_row level value, seen)))\<close>
| \<open>map_rows n h max_children max_string_length expand_depth level seen [] = Some ([], seen)\<close>
| \<open>map_rows n h max_children max_string_length expand_depth level seen ((k, v) # items) =
     (if is_mapping h v then
        (case to_html n h max_children max_string_length (max (expand_depth - 1) 0) (level + 1)
                seen k False v of
           None \<Rightarrow> None
         | Some (row, seen) \<Rightarrow>
             (case map_rows n h max_children max_string_length expand_depth level seen items of
                None \<Rightarrow> None
              | Some (rows, seen) \<Rightarrow> Some (row # rows, seen)))
      else if is_sequence h v then
        (case to_html n h max_children max_string_length (max (expand_depth - 1) 0) (level + 1)
                seen k False v of
           None \<Rightarrow> None
         | Some (row, seen) \<Rightarrow>
             (case map_rows n h max_children max_string_length expand_depth level seen items of
                None \<Rightarrow> None
              | Some (rows, seen) \<Rightarrow> Some (row # rows, seen)))
      else
        (case primitive_row max_string_length (level + 1) k False v of
           None \<Rightarrow> None
         | Some row \<Rightarrow>
             (case map_rows n h max_children max_string_length expand_depth level seen items of
                None \<Rightarrow> None
              | Some (rows, seen) \<Rightarrow> Some (row # rows, seen))))\<close>
| \<open>seq_rows n h max_children max_string_length expand_depth level seen [] = Some ([], seen)\<close>
| \<open>seq_rows n h max_children max_string_length expand_depth level seen ((i, v) # items) =
     (if is_mapping h v then
        (case to_html n h max_children max_string_length (max (expand_depth - 1) 0) (level + 1)
                seen (KInt (int i)) True v of
           None \<Rightarrow> None
         | Some (row, seen) \<Rightarrow>
             (case seq_rows n h max_children max_string_length expand_depth level seen items of
                None \<Rightarrow> None
              | Some (rows, seen) \<Rightarrow> Some (row # rows, seen)))
      else if is_sequence h v then
        (case to_html n h max_children max_string_length (max (expand_depth - 1) 0) (level + 1)
                seen (KInt (int i)) True v of
           None \<Rightarrow> None
         | Some (row, seen) \<Rightarrow>
             (case seq_rows n h max_children max_string_length expand_depth level seen items of
                None \<Rightarrow> None
              | Some (rows, seen) \<Rightarrow> Some (row # rows, seen)))
      else
        (case primitive_row max_string_length (level + 1) (KInt (int i)) True v of
           None \<Rightarrow> None
         | Some row \<Rightarrow>
             (case seq_rows n h max_children max_string_length expand_depth level seen items of
                None \<Rightarrow> None
              | Some (rows, seen) \<Rightarrow> Some (row # rows, seen))))\<close>
  by pat_completeness auto
termination
  by (relation "measures
        [(\<lambda>x. case x of Inl (n, _) \<Rightarrow> n | Inr (Inl (n, _)) \<Rightarrow> n | Inr (Inr (n, _)) \<Rightarrow> n),
         (\<lambda>x. case x of Inl _ \<Rightarrow> 0
               | Inr (Inl (n, h, mc, msl, e, l, s, items)) \<Rightarrow> Suc (length items)
               | Inr (Inr (n, h, mc, msl, e, l, s, items)) \<Rightarrow> Suc (length items))]")
     auto

lemmas to_html_Suc = to_html.simps(2)

declare to_html.simps(2) [simp del]

section \<open>The top-level call\<close>

text \<open>
  A keyword argument the caller may omit: \<open>None\<close> is "omitted", and the default of the
  signature is taken.
\<close>

definition kwarg :: "'a \<Rightarrow> 'a option \<Rightarrow> 'a" where
  "kwarg dflt given = (case given of None \<Rightarrow> dflt | Some x \<Rightarrow> x)"

definition nl :: string where
  "nl = [CHR 0x0A]"

text \<open>
  The stylesheet of \<^verbatim>\<open>json_to_html_tree\<close>, scoped by \<open>uid\<close>.  The two disclosure glyphs
  are written as their UTF-8 bytes.
\<close>

definition style_block :: "string \<Rightarrow> string" where
  \<open>style_block uid =
     nl @
     ''<style>'' @ nl @
     ''#'' @ uid @ '' {'' @ nl @
     ''  font-family: ui-monospace, SFMono-Regular, Menlo, Consolas, monospace;'' @ nl @
     ''  font-size: 13px; line-height: 1.45;'' @ nl @
     ''}'' @ nl @
     ''#'' @ uid @ '' summary {'' @ nl @
     ''  cursor: pointer;'' @ nl @
     ''  list-style: none;'' @ nl @
     ''  display: inline-flex;'' @ nl @
     ''  align-items: baseline;'' @ nl @
     ''  gap: 0.25rem;'' @ nl @
     ''}'' @ nl @
     ''#'' @ uid @ '' summary::-webkit-details-marker { display: none; }'' @ nl @
     ''#'' @ uid @ '' .jt-summary::before {'' @ nl @
     ''  content: "'' @ [CHR 0xE2, CHR 0x96, CHR 0xB8] @ ''";'' @ nl @
     ''  display: inline-block;'' @ nl @
     ''  width: 1em;'' @ nl @
     ''  color: #94a3b8;'' @ nl @
     ''}'' @ nl @
     ''#'' @ uid @ '' details[open] > .jt-summary::before { content: "'' @ [CHR 0xE2, CHR 0x96, CHR 0xBE] @ ''"; }'' @ nl @
     nl @
     ''#'' @ uid @ '' .jt-key   { color: #1f2937; }'' @ nl @
     ''#'' @ uid @ '' .jt-punct { color: #94a3b8; }'' @ nl @
     ''#'' @ uid @ '' .jt-str   { color: #059669; }'' @ nl @
     ''#'' @ uid @ '' .jt-str-trunc { color: #dc2626; }'' @ nl @
     ''#'' @ uid @ '' .jt-num   { color: #b45309; }'' @ nl @
     ''#'' @ uid @ '' .jt-bool  { color: #2563eb; }'' @ nl @
     ''#'' @ uid @ '' .jt-null  { color: #dc2626; }'' @ nl @
     ''#'' @ uid @ '' .jt-more  { color: #94a3b8; }'' @ nl @
     ''@media (prefers-color-scheme: dark) {'' @ nl @
     ''  #'' @ uid @ '' .jt-key { color: #e5e7eb; }'' @ nl @
     ''  #'' @ uid @ '' .jt-str-trunc { color: #f87171; }'' @ nl @
     ''  #'' @ uid @ '' .jt-more { color: #64748b; }'' @ nl @
     ''}'' @ nl @
     ''</style>'' @ nl\<close>

text \<open>
  \<^verbatim>\<open>json_to_html_tree(obj, *, key=None, expand_depth=1, max_children=100,
  max_string_length=2000)\<close>.  \<open>hex8\<close> is \<^verbatim>\<open>uuid.uuid4().hex[:8]\<close>, the fresh identifier
  drawn for this call; \<open>fuel\<close> is the recursion depth available.
\<close>

definition json_to_html_tree ::
    "string \<Rightarrow> nat \<Rightarrow> heap \<Rightarrow> pyval \<Rightarrow> pykey option \<Rightarrow> int option \<Rightarrow> int option option
      \<Rightarrow> int option option \<Rightarrow> string option" where
  \<open>json_to_html_tree hex8 fuel h obj key expand_depth max_children max_string_length =
     (let key = kwarg KNone key;
          expand_depth = kwarg 1 expand_depth;
          max_children = kwarg (Some 100) max_children;
          max_string_length = kwarg (Some 2000) max_string_length;
          uid = ''jt-'' @ hex8
      in case to_html fuel h max_children max_string_length expand_depth 0 {} key False obj of
           None \<Rightarrow> None
         | Some (body, seen) \<Rightarrow>
             Some (style_block uid @ ''<div id="'' @ uid @ ''" class="jt">'' @ body @ ''</div>''))\<close>

section \<open>The minimal renderer (json\_tree)\<close>

text \<open>
  The minimal variant has the same nested helpers \<^verbatim>\<open>esc\<close> and \<^verbatim>\<open>key_prefix_html\<close>; its
  \<^verbatim>\<open>fmt_primitive\<close> has no truncation, and its \<^verbatim>\<open>_to_html\<close> no limits.
\<close>

definition fmt_primitive_min :: "pyval \<Rightarrow> string option" where
  \<open>fmt_primitive_min v =
     (if isinstance_str v then Some (''<span class="jt-str">"'' @ esc (str_value v) @ ''"</span>'')
      else if is_none v then Some ''<span class="jt-null">null</span>''
      else if isinstance_bool v then
        Some (''<span class="jt-bool">'' @ (if bool_value v then ''true'' else ''false'')
              @ ''</span>'')
      else if isinstance_int_float v then
        (case py_format v of
           None \<Rightarrow> None
         | Some t \<Rightarrow> Some (''<span class="jt-num">'' @ t @ ''</span>''))
      else Some (''<span>'' @ esc (py_repr v) @ ''</span>''))\<close>

definition primitive_row_min :: "nat \<Rightarrow> pykey \<Rightarrow> bool \<Rightarrow> pyval \<Rightarrow> string option" where
  "primitive_row_min level k is_index v =
     (case key_prefix_html k is_index of
        None \<Rightarrow> None
      | Some key_prefix \<Rightarrow>
          (case fmt_primitive_min v of
             None \<Rightarrow> None
           | Some value \<Rightarrow> Some (leaf_row level (key_prefix @ value))))"

function (sequential) to_html_min ::
    "nat \<Rightarrow> heap \<Rightarrow> int \<Rightarrow> nat \<Rightarrow> addr set \<Rightarrow> pykey \<Rightarrow> bool \<Rightarrow> pyval \<Rightarrow> (string \<times> addr set) option"
  and map_rows_min ::
    "nat \<Rightarrow> heap \<Rightarrow> int \<Rightarrow> nat \<Rightarrow> addr set \<Rightarrow> (pykey \<times> pyval) list
      \<Rightarrow> (string list \<times> addr set) option"
  and seq_rows_min ::
    "nat \<Rightarrow> heap \<Rightarrow> int \<Rightarrow> nat \<Rightarrow> addr set \<Rightarrow> (nat \<times> pyval) list
      \<Rightarrow> (string list \<times> addr set) option"
where
  \<open>to_html_min 0 h expand_depth level seen key key_is_index obj = None\<close>
| \<open>to_html_min (Suc n) h expand_depth level seen key key_is_index obj =
     (let is_map = is_mapping h obj; is_seq = is_sequence h obj in
      if (is_map \<or> is_seq) \<and> id_of obj \<in> seen then Some (circular_leaf, seen)
      else
        let seen = (if is_map \<or> is_seq then insert (id_of obj) seen else seen) in
        if is_map then
          (let size = int (length (items_of h obj));
               open_attr = (if expand_depth > 0 then '' open'' else '''')
           in case key_prefix_html key key_is_index of
                None \<Rightarrow> None
              | Some key_prefix \<Rightarrow>
                  let summary_label =
                        key_prefix @ ''{} Object <span class="jt-punct">('' @ show_int size
                        @ '')</span>''
                  in case map_rows_min n h expand_depth level seen (items_of h obj) of
                       None \<Rightarrow> None
                     | Some (rows, seen) \<Rightarrow>
                         Some (details_html open_attr level summary_label rows, seen))
        else if is_seq then
          (let size = int (length (enumerate_of h obj));
               open_attr = (if expand_depth > 0 then '' open'' else '''')
           in case key_prefix_html key key_is_index of
                None \<Rightarrow> None
              | Some key_prefix \<Rightarrow>
                  let summary_label =
                        key_prefix @ ''[] Array <span class="jt-punct">('' @ show_int size
                        @ '')</span>''
                  in case seq_rows_min n h expand_depth level seen (enumerate_of h obj) of
                       None \<Rightarrow> None
                     | Some (rows, seen) \<Rightarrow>
                         Some (details_html open_attr level summary_label rows, seen))
        else if key \<noteq> KNone then
          (case primitive_row_min level key key_is_index obj of
             None \<Rightarrow> None
           | Some row \<Rightarrow> Some (row, seen))
        else
          (case fmt_primitive_min obj of
             None \<Rightarrow> None
           | Some value \<Rightarrow> Some (leaf_row level value, seen)))\<close>
| \<open>map_rows_min n h expand_depth level seen [] = Some ([], seen)\<close>
| \<open>map_rows_min n h expand_depth level seen ((k, v) # items) =
     (if is_mapping h v then
        (case to_html_min n h (max (expand_depth - 1) 0) (level + 1) seen k False v of
           None \<Rightarrow> None
         | Some (row, seen) \<Rightarrow>
             (case map_rows_min n h expand_depth level seen items of
                None \<Rightarrow> None
              | Some (rows, seen) \<Rightarrow> Some (row # rows, seen)))
      else if is_sequence h v then
        (case to_html_min n h (max (expand_depth - 1) 0) (level + 1) seen k False v of
           None \<Rightarrow> None
         | Some (row, seen) \<Rightarrow>
             (case map_rows_min n h expand_depth level seen items of
                None \<Rightarrow> None
              | Some (rows, seen) \<Rightarrow> Some (row # rows, seen)))
      else
        (case primitive_row_min (level + 1) k False v of
           None \<Rightarrow> None
         | Some row \<Rightarrow>
             (case map_rows_min n h expand_depth level seen items of
                None \<Rightarrow> None
              | Some (rows, seen) \<Rightarrow> Some (row # rows, seen))))\<close>
| \<open>seq_rows_min n h expand_depth level seen [] = Some ([], seen)\<close>
| \<open>seq_rows_min n h expand_depth level seen ((i, v) # items) =
     (if is_mapping h v then
        (case to_html_min n h (max (expand_depth - 1) 0) (level + 1) seen (KInt (int i)) True v of
           None \<Rightarrow> None
         | Some (row, seen) \<Rightarrow>
             (case seq_rows_min n h expand_depth level seen items of
                None \<Rightarrow> None
              | Some (rows, seen) \<Rightarrow> Some (row # rows, seen)))
      else if is_sequence h v then
        (case to_html_min n h (max (expand_depth - 1) 0) (level + 1) seen (KInt (int i)) True v of
           None \<Rightarrow> None
         | Some (row, seen) \<Rightarrow>
             (case seq_rows_min n h expand_depth level seen items of
                None \<Rightarrow> None
              | Some (rows, seen) \<Rightarrow> Some (row # rows, seen)))
      else
        (case primitive_row_min (level + 1) (KInt (int i)) True v of
           None \<Rightarrow> None
         | Some row \<Rightarrow>
             (case seq_rows_min n h expand_depth level seen items of
                None \<Rightarrow> None
              | Some (rows, seen) \<Rightarrow> Some (row # rows, seen))))\<close>
  by pat_completeness auto
termination
  by (relation "measures
        [(\<lambda>x. case x of Inl (n, _) \<Rightarrow> n | Inr (Inl (n, _)) \<Rightarrow> n | Inr (Inr (n, _)) \<Rightarrow> n),
         (\<lambda>x. case x of Inl _ \<Rightarrow> 0
               | Inr (Inl (n, h, e, l, s, items)) \<Rightarrow> Suc (length items)
               | Inr (Inr (n, h, e, l, s, items)) \<Rightarrow> Suc (length items))]")
     auto

lemmas to_html_min_Suc = to_html_min.simps(2)

declare to_html_min.simps(2) [simp del]

definition style_block_min :: "string \<Rightarrow> string" where
  \<open>style_block_min uid =
     nl @
     ''<style>'' @ nl @
     ''#'' @ uid @ '' {'' @ nl @
     ''  font-family: ui-monospace, SFMono-Regular, Menlo, Consolas, monospace;'' @ nl @
     ''  font-size: 13px; line-height: 1.45;'' @ nl @
     ''}'' @ nl @
     ''#'' @ uid @ '' summary {'' @ nl @
     ''  cursor: pointer;'' @ nl @
     ''  list-style: none;'' @ nl @
     ''  display: inline-flex;'' @ nl @
     ''  align-items: baseline;'' @ nl @
     ''  gap: 0.25rem;'' @ nl @
     ''}'' @ nl @
     ''#'' @ uid @ '' summary::-webkit-details-marker { display: none; }'' @ nl @
     ''#'' @ uid @ '' .jt-summary::before {'' @ nl @
     ''  content: "'' @ [CHR 0xE2, CHR 0x96, CHR 0xB8] @ ''";'' @ nl @
     ''  display: inline-block;'' @ nl @
     ''  width: 1em;'' @ nl @
     ''  color: #94a3b8;'' @ nl @
     ''}'' @ nl @
     ''#'' @ uid @ '' details[open] > .jt-summary::before { content: "'' @ [CHR 0xE2, CHR 0x96, CHR 0xBE] @ ''"; }'' @ nl @
     nl @
     ''#'' @ uid @ '' .jt-key   { color: #1f2937; }'' @ nl @
     ''#'' @ uid @ '' .jt-punct { color: #94a3b8; }'' @ nl @
     ''#'' @ uid @ '' .jt-str   { color: #059669; }'' @ nl @
     ''#'' @ uid @ '' .jt-num   { color: #b45309; }'' @ nl @
     ''#'' @ uid @ '' .jt-bool  { color: #2563eb; }'' @ nl @
     ''#'' @ uid @ '' .jt-null  { color: #dc2626; }'' @ nl @
     ''@media (prefers-color-scheme: dark) {'' @ nl @
     ''  #'' @ uid @ '' .jt-key { color: #e5e7eb; }'' @ nl @
     ''}'' @ nl @
     ''</style>'' @ nl\<close>

text \<open>\<^verbatim>\<open>json_to_html_tree(obj, *, key=None, expand_depth=1)\<close> of the minimal variant.\<close>

definition json_to_html_tree_min ::
    "string \<Rightarrow> nat \<Rightarrow> heap \<Rightarrow> pyval \<Rightarrow> pykey option \<Rightarrow> int option \<Rightarrow> string option" where
  \<open>json_to_html_tree_min hex8 fuel h obj key expand_depth =
     (let key = kwarg KNone key;
          expand_depth = kwarg 1 expand_depth;
          uid = ''jt-'' @ hex8
      in case to_html_min fuel h expand_depth 0 {} key False obj of
           None \<Rightarrow> None
         | Some (body, seen) \<Rightarrow>
             Some (style_block_min uid @ ''<div id="'' @ uid @ ''" class="jt">'' @ body
                   @ ''</div>''))\<close>

section \<open>Notions used to state the properties\<close>




text \<open>The number of children shown under a limit, and the count written in the header.\<close>

definition visible_count :: "int option \<Rightarrow> nat \<Rightarrow> nat" where
  "visible_count mc sz = (if bounded mc then min sz (nat (the mc)) else sz)"

definition count_display :: "int option \<Rightarrow> nat \<Rightarrow> string" where
  "count_display mc sz =
     (if visible_count mc sz \<noteq> sz
      then show_int (int (visible_count mc sz)) @ ''/'' @ show_int (int sz)
      else show_int (int sz))"


section \<open>Example stores\<close>


text \<open>A list that contains itself: \<^verbatim>\<open>x = []; x.append(x)\<close>.\<close>

definition store_self :: heap where
  "store_self = (\<lambda>_. CSeq [])(0 := CSeq [VRef 0])"

text \<open>Two mappings that reference each other: \<^verbatim>\<open>a = {}; b = {"b": a}; a["a"] = b\<close>.\<close>

definition store_mutual :: heap where
  "store_mutual =
     (\<lambda>_. CSeq [])(0 := CMap [(KStr ''a'', VRef 1)], 1 := CMap [(KStr ''b'', VRef 0)])"

text \<open>An acyclic structure with a shared list: \<^verbatim>\<open>s = []; x = [s, s]\<close>.\<close>

definition store_shared :: heap where
  "store_shared = (\<lambda>_. CSeq [])(0 := CSeq [VRef 1, VRef 1], 1 := CSeq [])"

text \<open>The nested structure \<^verbatim>\<open>{"a": 1, "b": [1, 2, 3]}\<close>.\<close>

definition store_nested :: heap where
  "store_nested =
     (\<lambda>_. CSeq [])(0 := CMap [(KStr ''a'', VInt 1), (KStr ''b'', VRef 1)],
                   1 := CSeq [VInt 1, VInt 2, VInt 3])"

section \<open>Primitive formatting\<close>

text \<open>
  C3.  For a string and a limit \<open>m \<ge> 0\<close>: a string longer than \<open>m\<close> is rendered as its first
  \<open>m\<close> characters (escaped for the markup) followed by the ellipsis \<^verbatim>\<open>...\<close>, in quotes, with
  the class \<^verbatim>\<open>jt-str jt-str-trunc\<close>; a string of length exactly \<open>m\<close>, or shorter, is rendered
  in full, in quotes, with the class \<^verbatim>\<open>jt-str\<close>.  Neither case raises.
\<close>

theorem fmt_primitive_string_truncation:
  assumes "0 \<le> m"
  shows \<open>(int (length s) > m \<longrightarrow>
            fmt_primitive (Some m) (VStr s) =
              Some (''<span class="jt-str jt-str-trunc">"'' @ esc (take (nat m) s) @ ''..."</span>'')
            \<and> int (length (take (nat m) s)) = m)
         \<and> (int (length s) \<le> m \<longrightarrow>
            fmt_primitive (Some m) (VStr s) = Some (''<span class="jt-str">"'' @ esc s @ ''"</span>''))\<close>
  using assms by (auto simp: fmt_primitive_def bounded_def Let_def)

theorem fmt_primitive_string_truncation_witness:
  \<open>fmt_primitive (Some 3) (VStr ''a<cdef'') =
     Some ''<span class="jt-str jt-str-trunc">"a&lt;c..."</span>''
   \<and> fmt_primitive (Some 6) (VStr ''a<cdef'') = Some ''<span class="jt-str">"a&lt;cdef"</span>''\<close>
  using fmt_primitive_string_truncation [of 3 "''a<cdef''"]
        fmt_primitive_string_truncation [of 6 "''a<cdef''"]
  by (simp add: esc_def html_escape_def replace_char_def)

text \<open>
  C9.  The dispatch of \<^verbatim>\<open>fmt_primitive\<close> is string, None, bool, number, anything else.  A
  bool passes the numeric test as well (it is an int in Python), and is still rendered as
  \<^verbatim>\<open>true\<close> or \<^verbatim>\<open>false\<close> with the class \<^verbatim>\<open>jt-bool\<close>, because its test comes first: the
  numeric branch would have written \<^verbatim>\<open>True\<close> or \<^verbatim>\<open>False\<close>.  A value of no recognised type,
  whose \<^verbatim>\<open>repr()\<close> is \<open>r\<close>, is rendered as the escaped \<open>r\<close> in a span with no class, and
  that branch does not raise.  The only case of \<^verbatim>\<open>fmt_primitive\<close> that raises is the
  numeric branch on an int of more than 4300 digits, which the interpreter refuses to
  convert; an int within the limit is rendered as its decimal text with the class
  \<^verbatim>\<open>jt-num\<close>.
\<close>

theorem fmt_primitive_dispatch:
  \<open>fmt_primitive None (VStr s) = Some (''<span class="jt-str">"'' @ esc s @ ''"</span>'')
   \<and> fmt_primitive msl VNone = Some ''<span class="jt-null">null</span>''
   \<and> isinstance_int_float (VBool b)
   \<and> py_format (VBool b) = Some (if b then ''True'' else ''False'')
   \<and> fmt_primitive msl (VBool b) =
         Some (''<span class="jt-bool">'' @ (if b then ''true'' else ''false'') @ ''</span>'')
   \<and> fmt_primitive msl (VInt i) =
         (if length (show_nat (nat \<bar>i\<bar>)) \<le> 4300
          then Some (''<span class="jt-num">'' @ show_int i @ ''</span>'')
          else None)
   \<and> fmt_primitive msl (VFloat t) = Some (''<span class="jt-num">'' @ Rep_float_text t @ ''</span>'')
   \<and> fmt_primitive msl (VOpaque r) = Some (''<span>'' @ esc r @ ''</span>'')\<close>
  by (simp add: fmt_primitive_def bounded_def py_str_int_def int_max_str_digits_def)

theorem fmt_primitive_dispatch_witness:
  \<open>fmt_primitive (Some 5) (VBool True) = Some ''<span class="jt-bool">true</span>''
   \<and> fmt_primitive (Some 5) (VBool False) = Some ''<span class="jt-bool">false</span>''
   \<and> fmt_primitive (Some 5) (VInt (- 12)) = Some ''<span class="jt-num">-12</span>''
   \<and> fmt_primitive (Some 5) (VOpaque ''<A>'') = Some ''<span>&lt;A&gt;</span>''\<close>
  using fmt_primitive_dispatch [of _ "Some 5" True "- 12" _ "''<A>''"]
        fmt_primitive_dispatch [of _ "Some 5" False]
  by (simp add: esc_def html_escape_def replace_char_def show_int_def show_nat.simps digit_char_def)

section \<open>The visited set\<close>

text \<open>
  C10.  A container whose identity is already in the visited set is rendered as exactly
  \<^verbatim>\<open><div class="jt-leaf"><em>[Circular]</em></div>\<close>, whatever key or index the parent passed
  down and whatever the level: the fragment carries no key prefix.  The visited set is left
  as it was.  In both loops such a child contributes this fragment as its row.
\<close>

theorem circular_leaf_drops_key:
  assumes "a \<in> seen"
  shows \<open>to_html (Suc n) h mc msl e level seen k ki (VRef a) =
            Some (''<div class="jt-leaf"><em>[Circular]</em></div>'', seen)
         \<and> map_rows (Suc n) h mc msl e level seen ((k, VRef a) # items) =
            (case map_rows (Suc n) h mc msl e level seen items of
               None \<Rightarrow> None
             | Some (rows, seen') \<Rightarrow>
                 Some (''<div class="jt-leaf"><em>[Circular]</em></div>'' # rows, seen'))
         \<and> seq_rows (Suc n) h mc msl e level seen ((i, VRef a) # ivs) =
            (case seq_rows (Suc n) h mc msl e level seen ivs of
               None \<Rightarrow> None
             | Some (rows, seen') \<Rightarrow>
                 Some (''<div class="jt-leaf"><em>[Circular]</em></div>'' # rows, seen'))\<close>
proof -
  have c: "is_mapping h (VRef a) \<or> is_sequence h (VRef a)"
    by (cases "h a") simp_all
  have 1: \<open>to_html (Suc n) h mc msl e level seen k ki (VRef a) =
            Some (''<div class="jt-leaf"><em>[Circular]</em></div>'', seen)\<close> for k ki e level
    using assms c by (simp add: to_html_Suc circular_leaf_def Let_def)
  have 2: \<open>map_rows (Suc n) h mc msl e level seen ((k, VRef a) # items) =
            (case map_rows (Suc n) h mc msl e level seen items of
               None \<Rightarrow> None
             | Some (rows, seen') \<Rightarrow>
                 Some (''<div class="jt-leaf"><em>[Circular]</em></div>'' # rows, seen'))\<close>
    using c by (auto simp: 1)
  have 3: \<open>seq_rows (Suc n) h mc msl e level seen ((i, VRef a) # ivs) =
            (case seq_rows (Suc n) h mc msl e level seen ivs of
               None \<Rightarrow> None
             | Some (rows, seen') \<Rightarrow>
                 Some (''<div class="jt-leaf"><em>[Circular]</em></div>'' # rows, seen'))\<close>
    using c by (auto simp: 1)
  from 1 2 3 show ?thesis by blast
qed

theorem circular_leaf_drops_key_witness:
  \<open>(1::nat) \<in> {0, 1}
   \<and> to_html (Suc 0) (\<lambda>_. CSeq []) (Some 100) (Some 2000) 1 2 {0, 1} (KStr ''k'') False (VRef 1) =
        Some (''<div class="jt-leaf"><em>[Circular]</em></div>'', {0, 1})
   \<and> seq_rows (Suc 0) (\<lambda>_. CSeq []) (Some 100) (Some 2000) 1 2 {0, 1} [(7, VRef 1)] =
        Some ([''<div class="jt-leaf"><em>[Circular]</em></div>''], {0, 1})\<close>
  using circular_leaf_drops_key [of 1 "{0, 1}" 0 "\<lambda>_. CSeq []" "Some 100" "Some 2000" 1 2
          "KStr ''k''" False "[]" 7 "[]"]
  by simp

section \<open>The structure of a rendered container\<close>











section \<open>Truncation of children\<close>

lemmas eval_text =
  show_int_def show_nat.simps digit_char_def indent_rem_def py_str_int_def int_max_str_digits_def
  esc_def html_escape_def replace_char_def key_prefix_html_def fmt_primitive_def
  primitive_row_def leaf_row_def more_row_def details_html_def circular_leaf_def bounded_def




section \<open>Expansion depth\<close>



section \<open>The minimal variant and the extended one without limits\<close>

lemma fmt_primitive_unbounded: "\<not> bounded msl \<Longrightarrow> fmt_primitive msl v = fmt_primitive_min v"
  by (simp add: fmt_primitive_def fmt_primitive_min_def)

lemma primitive_row_unbounded:
  "\<not> bounded msl \<Longrightarrow> primitive_row msl level k ki v = primitive_row_min level k ki v"
  by (simp add: primitive_row_def primitive_row_min_def fmt_primitive_unbounded
        cong: option.case_cong)

lemma map_rows_eq_min:
  assumes rec: "\<And>e level seen k ki v.
      to_html n h mc msl e level seen k ki v = to_html_min n h e level seen k ki v"
    and "\<not> bounded msl"
  shows "map_rows n h mc msl e level seen items = map_rows_min n h e level seen items"
  using assms(2)
  by (induction items arbitrary: seen)
     (auto simp: rec primitive_row_unbounded split: option.splits)

lemma seq_rows_eq_min:
  assumes rec: "\<And>e level seen k ki v.
      to_html n h mc msl e level seen k ki v = to_html_min n h e level seen k ki v"
    and "\<not> bounded msl"
  shows "seq_rows n h mc msl e level seen items = seq_rows_min n h e level seen items"
  using assms(2)
  by (induction items arbitrary: seen)
     (auto simp: rec primitive_row_unbounded split: option.splits)

lemma to_html_eq_min:
  assumes "\<not> bounded mc" "\<not> bounded msl"
  shows "to_html n h mc msl e level seen k ki v = to_html_min n h e level seen k ki v"
proof (induction n arbitrary: e level seen k ki v)
  case 0
  show ?case by simp
next
  case (Suc n)
  have m: "map_rows n h mc msl e level seen items = map_rows_min n h e level seen items"
    for e level seen items
    by (rule map_rows_eq_min) (simp_all add: Suc assms)
  have s: "seq_rows n h mc msl e level seen items = seq_rows_min n h e level seen items"
    for e level seen items
    by (rule seq_rows_eq_min) (simp_all add: Suc assms)
  show ?case
    using assms
    by (simp add: to_html_Suc to_html_min_Suc Let_def m s fmt_primitive_unbounded
          primitive_row_unbounded cong: option.case_cong)
qed

text \<open>
  C7.  With truncation disabled, that is with \<^verbatim>\<open>max_children\<close> and \<^verbatim>\<open>max_string_length\<close>
  each None or negative, \<^verbatim>\<open>_to_html\<close> of the extended variant returns, for every value,
  key, index flag, \<open>expand_depth\<close>, level, visited set and recursion depth, exactly what
  \<^verbatim>\<open>_to_html\<close> of the minimal variant returns: the same markup and the same visited set,
  or the same failure.  (The defaults 100 and 2000 of the extended signature are limits, not
  "disabled".)
\<close>

theorem unlimited_equals_minimal:
  assumes "mc = None \<or> the mc < 0" and "msl = None \<or> the msl < 0"
  shows "to_html n h mc msl e level seen k ki v = to_html_min n h e level seen k ki v"
  using assms by (intro to_html_eq_min) (auto simp: bounded_def)

theorem unlimited_equals_minimal_witness:
  \<open>to_html (Suc 1) store_nested (Some (- 1)) None 1 0 {} KNone False (VRef 0) =
     to_html_min (Suc 1) store_nested 1 0 {} KNone False (VRef 0)
   \<and> to_html_min (Suc 1) store_nested 1 0 {} KNone False (VRef 0) =
     Some (''<details class="jt-details" open style="margin-left:0.0rem"><summary class="jt-summary">{} Object <span class="jt-punct">(2)</span></summary><div class="jt-leaf" style="margin-left:0.5rem"><span class="jt-key">"a"</span><span class="jt-punct">: </span><span class="jt-num">1</span></div><details class="jt-details" style="margin-left:0.5rem"><summary class="jt-summary"><span class="jt-key">"b"</span><span class="jt-punct">: </span>[] Array <span class="jt-punct">(3)</span></summary><div class="jt-leaf" style="margin-left:1.0rem"><span class="jt-key">[0]</span><span class="jt-punct">: </span><span class="jt-num">1</span></div><div class="jt-leaf" style="margin-left:1.0rem"><span class="jt-key">[1]</span><span class="jt-punct">: </span><span class="jt-num">2</span></div><div class="jt-leaf" style="margin-left:1.0rem"><span class="jt-key">[2]</span><span class="jt-punct">: </span><span class="jt-num">3</span></div></details></details>'', {1, 0})\<close>
proof -
  have e: \<open>to_html_min (Suc 1) store_nested 1 0 {} KNone False (VRef 0) =
     Some (''<details class="jt-details" open style="margin-left:0.0rem"><summary class="jt-summary">{} Object <span class="jt-punct">(2)</span></summary><div class="jt-leaf" style="margin-left:0.5rem"><span class="jt-key">"a"</span><span class="jt-punct">: </span><span class="jt-num">1</span></div><details class="jt-details" style="margin-left:0.5rem"><summary class="jt-summary"><span class="jt-key">"b"</span><span class="jt-punct">: </span>[] Array <span class="jt-punct">(3)</span></summary><div class="jt-leaf" style="margin-left:1.0rem"><span class="jt-key">[0]</span><span class="jt-punct">: </span><span class="jt-num">1</span></div><div class="jt-leaf" style="margin-left:1.0rem"><span class="jt-key">[1]</span><span class="jt-punct">: </span><span class="jt-num">2</span></div><div class="jt-leaf" style="margin-left:1.0rem"><span class="jt-key">[2]</span><span class="jt-punct">: </span><span class="jt-num">3</span></div></details></details>'', {1, 0})\<close>
    by (simp add: to_html_min_Suc store_nested_def Let_def eval_text fmt_primitive_min_def
          primitive_row_min_def enumerate_eq_zip)
  from unlimited_equals_minimal[of "Some (- 1)" None "Suc 1" store_nested 1 0 "{}" KNone False
         "VRef 0"] e
  show ?thesis by simp
qed

section \<open>Indentation\<close>

text \<open>
  C8.  The claim fails on the code for the \<^verbatim>\<open>[Circular]\<close> leaf.  For the list that contains
  itself the child row, at level 1, is \<^verbatim>\<open><div class="jt-leaf"><em>[Circular]</em></div>\<close>: it
  has no \<^verbatim>\<open>style\<close> attribute, so it is no \<^verbatim>\<open>jt-leaf\<close> line with a \<^verbatim>\<open>margin-left\<close> of its
  level, whatever its content.  The primitive line and the summary line of the same
  functions do carry the offset of their level.
\<close>

theorem circular_leaf_not_indented:
  \<open>to_html (Suc 1) store_self (Some 100) (Some 2000) 1 0 {} KNone False (VRef 0) =
     Some (details_html '' open'' 0 ''[] Array <span class="jt-punct">(1)</span>''
             [''<div class="jt-leaf"><em>[Circular]</em></div>''], {0})
   \<and> (\<forall>level body. ''<div class="jt-leaf"><em>[Circular]</em></div>'' \<noteq> leaf_row level body)
   \<and> \<not> sublist ''margin-left'' ''<div class="jt-leaf"><em>[Circular]</em></div>''\<close>
proof -
  have 1: \<open>to_html (Suc 1) store_self (Some 100) (Some 2000) 1 0 {} KNone False (VRef 0) =
     Some (details_html '' open'' 0 ''[] Array <span class="jt-punct">(1)</span>''
             [''<div class="jt-leaf"><em>[Circular]</em></div>''], {0})\<close>
    by (simp add: to_html_Suc store_self_def Let_def eval_text enumerate_eq_zip)
  have 2: \<open>''<div class="jt-leaf"><em>[Circular]</em></div>'' \<noteq> leaf_row level body\<close>
    for level body
    by (simp add: leaf_row_def)
  have 3: \<open>\<not> sublist ''margin-left'' ''<div class="jt-leaf"><em>[Circular]</em></div>''\<close>
    by (simp add: sublist_Cons_right)
  from 1 2 3 show ?thesis by blast
qed

end
